theory Spec2Isabelle
  imports Main "HOL-Library.Product_Lexorder" "HOL-Library.Sublist" "HOL-Library.Multiset"
begin

section \<open>Timestamps\<close>

text \<open>
  Every timestamp of the GitHub API is an ISO-8601 text in UTC
  (\<^verbatim>\<open>2024-02-01T09:30:00Z\<close>). Both scripts read it with
  \<^verbatim>\<open>datetime.fromisoformat(s.replace('Z', '+00:00'))\<close> and compare the resulting
  instants. The model holds the instant that the library call reads: year, month, day,
  hour, minute, second, in UTC. Instants of one zone compare field by field, which is
  the lexicographic order of the tuple.
\<close>

type_synonym datetime = "nat \<times> nat \<times> nat \<times> nat \<times> nat \<times> nat"

section \<open>The query runner (both scripts)\<close>

text \<open>
  \<^verbatim>\<open>make_graphql_request(query, variables, token)\<close> posts one query and reads the
  answer. What \<^verbatim>\<open>requests.post\<close> answers is the only input the scripts do not
  control, so it is a parameter: \<open>post\<close> maps the variables of the request to the HTTP
  response. \<open>result_errors\<close> is the \<^verbatim>\<open>errors\<close> key of the JSON body, \<open>None\<close> when the key
  is absent. The query text and the token are fixed for each caller and left out.
\<close>

record 'd response =
  status_code :: nat
  body_text :: string
  result_errors :: "string option"
  result_data :: 'd

text \<open>
  The three \<^verbatim>\<open>raise Exception(...)\<close> of the scripts: a status other than 200, an
  \<^verbatim>\<open>errors\<close> key in the body, and a repository that is missing or not accessible.
\<close>

datatype error =
    TransportError nat string
  | QueryError string
  | NotFoundError

definition make_graphql_request :: "('v \<Rightarrow> 'd response) \<Rightarrow> 'v \<Rightarrow> error + 'd" where
  "make_graphql_request post variables =
     (let response = post variables in
      if status_code response \<noteq> 200
      then Inl (TransportError (status_code response) (body_text response))
      else (case result_errors response of
              Some errs \<Rightarrow> Inl (QueryError errs)
            | None \<Rightarrow> Inr (result_data response)))"

text \<open>
  A connection: \<^verbatim>\<open>nodes\<close> with \<^verbatim>\<open>pageInfo { endCursor hasNextPage }\<close>.
\<close>

record 'n page =
  nodes :: "'n list"
  endCursor :: "string option"
  hasNextPage :: bool

text \<open>
  A paginated function sends one request per turn of its \<^verbatim>\<open>while\<close> loop. The remote
  side of a run is the list of its answers, one per request in the order the requests
  are made, each a function of the cursor sent. A run that needs more answers than the
  list holds has result \<open>None\<close>: the list says nothing about it.
\<close>

type_synonym cursor = "string option"

type_synonym 'n remote = "(cursor \<Rightarrow> 'n page response) list"

text \<open>
  The pages that a scan without early stop reads, starting from a cursor: the scan
  goes on while \<^verbatim>\<open>hasNextPage\<close> holds and ends at the first failure. The four loops
  of github-collaboration-export.py are compared with it below.
\<close>

fun fetch_all_pages ::
  "'n remote \<Rightarrow> cursor \<Rightarrow> ((error + 'n page list) \<times> 'n remote) option" where
  "fetch_all_pages [] cursor = None"
| "fetch_all_pages (post # remote) cursor =
     (case make_graphql_request post cursor of
        Inl e \<Rightarrow> Some (Inl e, remote)
      | Inr data \<Rightarrow>
          if hasNextPage data
          then (case fetch_all_pages remote (endCursor data) of
                  None \<Rightarrow> None
                | Some (Inl e, rest) \<Rightarrow> Some (Inl e, rest)
                | Some (Inr pages, rest) \<Rightarrow> Some (Inr (data # pages), rest))
          else Some (Inr [data], remote))"

text \<open>The repository lookup, the first request of both \<^verbatim>\<open>main\<close> functions.\<close>

record repository_info =
  nameWithOwner :: string
  repo_name :: string
  description :: "string option"
  repo_url :: string
  isPrivate :: bool
  isArchived :: bool



section \<open>Commits and their deduplication (github-work-summary.py)\<close>

text \<open>A node of the commit history query.\<close>

record commit_node =
  oid :: string
  message :: string
  committedDate :: datetime
  commit_url :: string
  commit_additions :: int
  commit_deletions :: int
  commit_changedFiles :: int
  parents_totalCount :: int



text \<open>
  The probing part of \<^verbatim>\<open>get_user_commits\<close>. The answer to the history query holds
  \<^verbatim>\<open>repository\<close> (null when the repository is not visible) and inside it
  \<^verbatim>\<open>defaultBranchRef\<close> (null for an empty repository), then the history page: two
  nested options. The variables that change between requests are the author e-mail,
  the \<^verbatim>\<open>since\<close> text and the cursor.

  One turn of the inner \<^verbatim>\<open>while\<close> loop is inside \<^verbatim>\<open>try\<close>: a failure of the request
  is printed and sets \<^verbatim>\<open>has_next_page = False\<close>, so the loop for this e-mail ends with
  the commits gathered so far; \<^verbatim>\<open>break\<close> ends it the same way.
\<close>

type_synonym commit_data = "commit_node page option option"

type_synonym commit_remote = "(string \<times> datetime \<times> cursor \<Rightarrow> commit_data response) list"





section \<open>Authored pull requests, with early stop (github-work-summary.py)\<close>

record authored_pr_node =
  apr_title :: string
  apr_body :: string
  apr_url :: string
  apr_createdAt :: datetime
  apr_closedAt :: "datetime option"
  apr_mergedAt :: "datetime option"
  apr_state :: string
  apr_number :: int
  apr_author :: "string option"
  apr_additions :: int
  apr_deletions :: int
  apr_changedFiles :: int

text \<open>
  The \<^verbatim>\<open>for pr in prs\<close> loop of \<^verbatim>\<open>get_user_pull_requests\<close>, with its \<^verbatim>\<open>break\<close>. It
  returns the accumulator and \<^verbatim>\<open>continue_fetching\<close>.
  \<^verbatim>\<open>
  if pr['author'] and pr['author']['login'] == username and created_at >= since_datetime:
      all_prs.append(pr)
  elif created_at < since_datetime:
      continue_fetching = False
      break
  \<close>
\<close>

fun filter_prs ::
  "string \<Rightarrow> datetime \<Rightarrow> authored_pr_node list \<Rightarrow> authored_pr_node list
     \<Rightarrow> authored_pr_node list \<times> bool" where
  "filter_prs username since_datetime [] all_prs = (all_prs, True)"
| "filter_prs username since_datetime (pr # prs) all_prs =
     (if apr_author pr = Some username \<and> apr_createdAt pr \<ge> since_datetime
      then filter_prs username since_datetime prs (all_prs @ [pr])
      else if apr_createdAt pr < since_datetime
      then (all_prs, False)
      else filter_prs username since_datetime prs all_prs)"

text \<open>
  \<^verbatim>\<open>while has_next_page and continue_fetching:\<close> both flags are true on entry, and the
  last statement of the body clears \<^verbatim>\<open>has_next_page\<close> unless
  \<^verbatim>\<open>continue_fetching and hasNextPage\<close>.
\<close>

fun pull_requests_loop ::
  "authored_pr_node remote \<Rightarrow> string \<Rightarrow> datetime \<Rightarrow> cursor \<Rightarrow> authored_pr_node list
     \<Rightarrow> ((error + authored_pr_node list) \<times> authored_pr_node remote) option" where
  "pull_requests_loop [] username since_datetime cursor all_prs = None"
| "pull_requests_loop (post # remote) username since_datetime cursor all_prs =
     (case make_graphql_request post cursor of
        Inl e \<Rightarrow> Some (Inl e, remote)
      | Inr data \<Rightarrow>
          (case filter_prs username since_datetime (nodes data) all_prs of
             (all_prs', continue_fetching) \<Rightarrow>
               if continue_fetching \<and> hasNextPage data
               then pull_requests_loop remote username since_datetime (endCursor data) all_prs'
               else Some (Inr all_prs', remote)))"

definition get_user_pull_requests ::
  "authored_pr_node remote \<Rightarrow> string \<Rightarrow> datetime
     \<Rightarrow> ((error + authored_pr_node list) \<times> authored_pr_node remote) option" where
  "get_user_pull_requests remote username since_date =
     pull_requests_loop remote username since_date None []"



section \<open>Reviews given (github-collaboration-export.py)\<close>

text \<open>
  The nodes of the review query. The API selects the reviews by
  \<^verbatim>\<open>reviews(first: 10, author: $username)\<close>, so a review node has no author of its
  own; \<^verbatim>\<open>comments(first: 30)\<close> gives the total count and the first nodes.
\<close>

record review_comment_node =
  rc_body :: string
  rc_path :: string
  rc_position :: "int option"
  rc_createdAt :: datetime

record review_node =
  rv_state :: string
  rv_body :: string
  rv_createdAt :: datetime
  rv_url :: string
  rv_comments_totalCount :: int
  rv_comments_nodes :: "review_comment_node list"

record reviewed_pr_node =
  rpr_number :: int
  rpr_title :: string
  rpr_url :: string
  rpr_createdAt :: datetime
  rpr_author :: "string option"
  rpr_reviews :: "review_node list"

text \<open>An entry of \<^verbatim>\<open>reviewed_prs\<close>, the dictionary \<^verbatim>\<open>pr_with_review\<close>.\<close>

record pr_with_review =
  rev_pr_number :: int
  rev_pr_title :: string
  rev_pr_url :: string
  rev_pr_author :: string
  review_state :: string
  review_body :: string
  review_url :: string
  rev_created_at :: datetime
  review_comments :: "review_comment_node list"
  review_comments_count :: int

text \<open>\<^verbatim>\<open>x['author']['login'] if x['author'] else 'Unknown'\<close>\<close>

definition login_or_unknown :: "string option \<Rightarrow> string" where
  "login_or_unknown author = (case author of Some login \<Rightarrow> login | None \<Rightarrow> ''Unknown'')"

definition pr_with_review_of :: "reviewed_pr_node \<Rightarrow> review_node \<Rightarrow> pr_with_review" where
  "pr_with_review_of pr review =
     \<lparr>rev_pr_number = rpr_number pr,
      rev_pr_title = rpr_title pr,
      rev_pr_url = rpr_url pr,
      rev_pr_author = login_or_unknown (rpr_author pr),
      review_state = rv_state review,
      review_body = rv_body review,
      review_url = rv_url review,
      rev_created_at = rv_createdAt review,
      review_comments = rv_comments_nodes review,
      review_comments_count = rv_comments_totalCount review\<rparr>"

text \<open>
  What one pull request adds to \<^verbatim>\<open>reviewed_prs\<close>:
  \<^verbatim>\<open>
  reviews = pr['reviews']['nodes']
  if reviews:
      if not pr['author'] or pr['author']['login'] != username:
          for review in reviews:
              if created_at >= since_datetime:
                  reviewed_prs.append(pr_with_review)
  \<close>
\<close>

definition reviews_of_pr :: "string \<Rightarrow> datetime \<Rightarrow> reviewed_pr_node \<Rightarrow> pr_with_review list" where
  "reviews_of_pr username since_datetime pr =
     (let reviews = rpr_reviews pr in
      if reviews \<noteq> []
      then (if rpr_author pr = None \<or> rpr_author pr \<noteq> Some username
            then map (pr_with_review_of pr)
                   (filter (\<lambda>review. rv_createdAt review \<ge> since_datetime) reviews)
            else [])
      else [])"

fun pr_reviews_loop ::
  "reviewed_pr_node remote \<Rightarrow> string \<Rightarrow> datetime \<Rightarrow> cursor \<Rightarrow> pr_with_review list
     \<Rightarrow> ((error + pr_with_review list) \<times> reviewed_pr_node remote) option" where
  "pr_reviews_loop [] username since_datetime cursor reviewed_prs = None"
| "pr_reviews_loop (post # remote) username since_datetime cursor reviewed_prs =
     (case make_graphql_request post cursor of
        Inl e \<Rightarrow> Some (Inl e, remote)
      | Inr data \<Rightarrow>
          (let reviewed_prs' =
                 reviewed_prs @ concat (map (reviews_of_pr username since_datetime) (nodes data)) in
           if hasNextPage data
           then pr_reviews_loop remote username since_datetime (endCursor data) reviewed_prs'
           else Some (Inr reviewed_prs', remote)))"

definition get_user_pr_reviews ::
  "reviewed_pr_node remote \<Rightarrow> string \<Rightarrow> datetime
     \<Rightarrow> ((error + pr_with_review list) \<times> reviewed_pr_node remote) option" where
  "get_user_pr_reviews remote username since_date =
     pr_reviews_loop remote username since_date None []"

section \<open>Comments given and discussion on own work (github-collaboration-export.py)\<close>

text \<open>
  The two comment queries ask for the same fields of every pull request, with
  \<^verbatim>\<open>comments(first: 30)\<close>.
\<close>

record comment_node =
  c_author :: "string option"
  c_body :: string
  c_createdAt :: datetime
  c_url :: string

record pull_request_node =
  pr_number :: int
  pr_title :: string
  pr_url :: string
  pr_createdAt :: datetime
  pr_author :: "string option"
  pr_comments_totalCount :: int
  pr_comments :: "comment_node list"

text \<open>An entry of \<^verbatim>\<open>commented_prs\<close>.\<close>

record commented_pr =
  cpr_pr_number :: int
  cpr_pr_title :: string
  cpr_pr_url :: string
  cpr_pr_author :: string
  cpr_comments :: "comment_node list"
  cpr_comment_count :: int

text \<open>
  \<^verbatim>\<open>
  for comment in x['comments']['nodes']:
      if comment['author'] and comment['author']['login'] == username:
          if created_at >= since_datetime:
              user_comments.append(comment)
  \<close>
  the same loop in \<^verbatim>\<open>get_prs_with_user_comments\<close> and \<^verbatim>\<open>get_issue_discussions\<close>.
\<close>

definition user_comments_of :: "string \<Rightarrow> datetime \<Rightarrow> comment_node list \<Rightarrow> comment_node list" where
  "user_comments_of username since_datetime comments =
     filter (\<lambda>comment. c_author comment = Some username \<and> c_createdAt comment \<ge> since_datetime)
       comments"

text \<open>
  What one pull request adds to \<^verbatim>\<open>commented_prs\<close>: nothing when the user is its
  author (\<^verbatim>\<open>continue\<close>), else one entry when \<^verbatim>\<open>user_comments\<close> is not empty.
\<close>

definition commented_pr_of :: "string \<Rightarrow> datetime \<Rightarrow> pull_request_node \<Rightarrow> commented_pr list" where
  "commented_pr_of username since_datetime pr =
     (if pr_author pr = Some username then []
      else (let user_comments = user_comments_of username since_datetime (pr_comments pr) in
            if user_comments \<noteq> []
            then [\<lparr>cpr_pr_number = pr_number pr,
                   cpr_pr_title = pr_title pr,
                   cpr_pr_url = pr_url pr,
                   cpr_pr_author = login_or_unknown (pr_author pr),
                   cpr_comments = user_comments,
                   cpr_comment_count = int (length user_comments)\<rparr>]
            else []))"

fun commented_prs_loop ::
  "pull_request_node remote \<Rightarrow> string \<Rightarrow> datetime \<Rightarrow> cursor \<Rightarrow> commented_pr list
     \<Rightarrow> ((error + commented_pr list) \<times> pull_request_node remote) option" where
  "commented_prs_loop [] username since_datetime cursor commented_prs = None"
| "commented_prs_loop (post # remote) username since_datetime cursor commented_prs =
     (case make_graphql_request post cursor of
        Inl e \<Rightarrow> Some (Inl e, remote)
      | Inr data \<Rightarrow>
          (let commented_prs' =
                 commented_prs @ concat (map (commented_pr_of username since_datetime) (nodes data)) in
           if hasNextPage data
           then commented_prs_loop remote username since_datetime (endCursor data) commented_prs'
           else Some (Inr commented_prs', remote)))"

definition get_prs_with_user_comments ::
  "pull_request_node remote \<Rightarrow> string \<Rightarrow> datetime
     \<Rightarrow> ((error + commented_pr list) \<times> pull_request_node remote) option" where
  "get_prs_with_user_comments remote username since_date =
     commented_prs_loop remote username since_date None []"

text \<open>An entry of \<^verbatim>\<open>discussion_threads\<close> and an entry of \<^verbatim>\<open>pr_threads\<close>.\<close>

record discussion_thread =
  thread_comment :: comment_node
  comment_author :: string

record pr_thread =
  thr_pr_number :: int
  thr_pr_title :: string
  thr_pr_url :: string
  thr_created_at :: datetime
  discussion_threads :: "discussion_thread list"
  thread_count :: int

text \<open>
  \<^verbatim>\<open>
  if comment['author'] and comment['author']['login'] != username:
      if comment_created_at >= since_datetime:
          discussion_threads.append({'comment': comment,
                                     'comment_author': comment['author']['login']})
  \<close>
\<close>

definition thread_of_comment :: "string \<Rightarrow> datetime \<Rightarrow> comment_node \<Rightarrow> discussion_thread list" where
  "thread_of_comment username since_datetime comment =
     (case c_author comment of
        None \<Rightarrow> []
      | Some login \<Rightarrow>
          if login \<noteq> username \<and> c_createdAt comment \<ge> since_datetime
          then [\<lparr>thread_comment = comment, comment_author = login\<rparr>]
          else [])"

text \<open>
  What one pull request adds to \<^verbatim>\<open>pr_threads\<close>: nothing unless the user is its
  author (\<^verbatim>\<open>continue\<close>) and it was created at or after the cutoff.
\<close>

definition pr_thread_of :: "string \<Rightarrow> datetime \<Rightarrow> pull_request_node \<Rightarrow> pr_thread list" where
  "pr_thread_of username since_datetime pr =
     (if pr_author pr = None \<or> pr_author pr \<noteq> Some username then []
      else if pr_createdAt pr \<ge> since_datetime
      then (let threads = concat (map (thread_of_comment username since_datetime) (pr_comments pr)) in
            if threads \<noteq> []
            then [\<lparr>thr_pr_number = pr_number pr,
                   thr_pr_title = pr_title pr,
                   thr_pr_url = pr_url pr,
                   thr_created_at = pr_createdAt pr,
                   discussion_threads = threads,
                   thread_count = int (length threads)\<rparr>]
            else [])
      else [])"

fun pr_threads_loop ::
  "pull_request_node remote \<Rightarrow> string \<Rightarrow> datetime \<Rightarrow> cursor \<Rightarrow> pr_thread list
     \<Rightarrow> ((error + pr_thread list) \<times> pull_request_node remote) option" where
  "pr_threads_loop [] username since_datetime cursor pr_threads = None"
| "pr_threads_loop (post # remote) username since_datetime cursor pr_threads =
     (case make_graphql_request post cursor of
        Inl e \<Rightarrow> Some (Inl e, remote)
      | Inr data \<Rightarrow>
          (let pr_threads' =
                 pr_threads @ concat (map (pr_thread_of username since_datetime) (nodes data)) in
           if hasNextPage data
           then pr_threads_loop remote username since_datetime (endCursor data) pr_threads'
           else Some (Inr pr_threads', remote)))"

definition get_user_pr_comment_threads ::
  "pull_request_node remote \<Rightarrow> string \<Rightarrow> datetime
     \<Rightarrow> ((error + pr_thread list) \<times> pull_request_node remote) option" where
  "get_user_pr_comment_threads remote username since_date =
     pr_threads_loop remote username since_date None []"

section \<open>Issue participation (github-collaboration-export.py)\<close>

record issue_node =
  in_number :: int
  in_title :: string
  in_url :: string
  in_createdAt :: datetime
  in_author :: "string option"
  in_comments_totalCount :: int
  in_comments :: "comment_node list"

text \<open>
  An entry of \<^verbatim>\<open>discussed_issues\<close>. \<^verbatim>\<open>is_authored_by_user\<close> is the value of
  \<^verbatim>\<open>issue['author'] and issue['author']['login'] == username\<close>: Python's \<^verbatim>\<open>and\<close>
  gives \<^verbatim>\<open>None\<close> for an absent author and the comparison's boolean otherwise.
\<close>

record discussed_issue =
  issue_number :: int
  issue_title :: string
  issue_url :: string
  issue_author :: string
  is_authored_by_user :: "bool option"
  iss_comments :: "comment_node list"
  iss_comment_count :: int

definition author_is :: "string option \<Rightarrow> string \<Rightarrow> bool option" where
  "author_is author username = (case author of None \<Rightarrow> None | Some login \<Rightarrow> Some (login = username))"

text \<open>Python's truth value of such a value: \<^verbatim>\<open>None\<close> and \<^verbatim>\<open>False\<close> are false.\<close>

definition truthy :: "bool option \<Rightarrow> bool" where
  "truthy v = (v = Some True)"

text \<open>
  \<^verbatim>\<open>
  if (is_authored_by_user and issue_created_at >= since_datetime) or user_comments:
      discussed_issues.append({...})
  \<close>
\<close>

definition discussed_issue_of :: "string \<Rightarrow> datetime \<Rightarrow> issue_node \<Rightarrow> discussed_issue list" where
  "discussed_issue_of username since_datetime issue =
     (let authored = author_is (in_author issue) username;
          issue_created_at = in_createdAt issue;
          user_comments = user_comments_of username since_datetime (in_comments issue) in
      if (truthy authored \<and> issue_created_at \<ge> since_datetime) \<or> user_comments \<noteq> []
      then [\<lparr>issue_number = in_number issue,
             issue_title = in_title issue,
             issue_url = in_url issue,
             issue_author = login_or_unknown (in_author issue),
             is_authored_by_user = authored,
             iss_comments = user_comments,
             iss_comment_count = int (length user_comments)\<rparr>]
      else [])"

fun issue_discussions_loop ::
  "issue_node remote \<Rightarrow> string \<Rightarrow> datetime \<Rightarrow> cursor \<Rightarrow> discussed_issue list
     \<Rightarrow> ((error + discussed_issue list) \<times> issue_node remote) option" where
  "issue_discussions_loop [] username since_datetime cursor discussed_issues = None"
| "issue_discussions_loop (post # remote) username since_datetime cursor discussed_issues =
     (case make_graphql_request post cursor of
        Inl e \<Rightarrow> Some (Inl e, remote)
      | Inr data \<Rightarrow>
          (let discussed_issues' =
                 discussed_issues
                 @ concat (map (discussed_issue_of username since_datetime) (nodes data)) in
           if hasNextPage data
           then issue_discussions_loop remote username since_datetime (endCursor data)
                  discussed_issues'
           else Some (Inr discussed_issues', remote)))"

definition get_issue_discussions ::
  "issue_node remote \<Rightarrow> string \<Rightarrow> datetime
     \<Rightarrow> ((error + discussed_issue list) \<times> issue_node remote) option" where
  "get_issue_discussions remote username since_date =
     issue_discussions_loop remote username since_date None []"

section \<open>The aggregator (github-collaboration-export.py)\<close>

text \<open>
  \<^verbatim>\<open>collaborators\<close> is a Python set, filled by four loops. The model holds it as a
  set; \<^verbatim>\<open>list(collaborators)\<close> lists its members in an order Python leaves open, so
  \<open>collaborator_list\<close> is the set of the members of that list.
\<close>

definition collaborators_of ::
  "pr_with_review list \<Rightarrow> commented_pr list \<Rightarrow> pr_thread list \<Rightarrow> discussed_issue list
     \<Rightarrow> string set" where
  "collaborators_of pr_reviews commented_prs pr_threads issue_discussions =
     set (map rev_pr_author (filter (\<lambda>review. rev_pr_author review \<noteq> ''Unknown'') pr_reviews))
     \<union> set (map cpr_pr_author (filter (\<lambda>pr. cpr_pr_author pr \<noteq> ''Unknown'') commented_prs))
     \<union> set (map comment_author
              (filter (\<lambda>thread. comment_author thread \<noteq> ''Unknown'')
                 (concat (map discussion_threads pr_threads))))
     \<union> set (map issue_author
              (filter (\<lambda>issue. issue_author issue \<noteq> ''Unknown''
                                \<and> \<not> truthy (is_authored_by_user issue))
                 issue_discussions))"

record collaboration_stats =
  unique_collaborators :: int
  collaborator_list :: "string set"
  total_pr_reviews :: int
  total_review_comments :: int
  total_prs_commented_on :: int
  total_pr_comments :: int
  total_pr_discussion_threads :: int
  total_issues_engaged_with :: int
  total_issue_comments :: int
  total_collaboration_touchpoints :: int

definition get_collaboration_stats ::
  "pr_with_review list \<Rightarrow> commented_pr list \<Rightarrow> pr_thread list \<Rightarrow> discussed_issue list
     \<Rightarrow> collaboration_stats" where
  "get_collaboration_stats pr_reviews commented_prs pr_threads issue_discussions =
     (let collaborators = collaborators_of pr_reviews commented_prs pr_threads issue_discussions;
          review_comments_total = sum_list (map review_comments_count pr_reviews);
          pr_comments_total = sum_list (map cpr_comment_count commented_prs);
          thread_replies_total = sum_list (map thread_count pr_threads);
          issue_comments_total = sum_list (map iss_comment_count issue_discussions) in
      \<lparr>unique_collaborators = int (card collaborators),
       collaborator_list = collaborators,
       total_pr_reviews = int (length pr_reviews),
       total_review_comments = review_comments_total,
       total_prs_commented_on = int (length commented_prs),
       total_pr_comments = pr_comments_total,
       total_pr_discussion_threads = thread_replies_total,
       total_issues_engaged_with = int (length issue_discussions),
       total_issue_comments = issue_comments_total,
       total_collaboration_touchpoints =
         int (length pr_reviews) + review_comments_total + pr_comments_total
         + thread_replies_total + issue_comments_total\<rparr>)"



section \<open>Notions used to state the properties\<close>


text \<open>The entries that a per-node rule gives on the nodes of a list of pages.\<close>

definition bucket_of_pages :: "('n \<Rightarrow> 'e list) \<Rightarrow> 'n page list \<Rightarrow> 'e list" where
  "bucket_of_pages rule pages = concat (map rule (concat (map nodes pages)))"

text \<open>
  The rule of the issue-participation bucket in the words of the claim: the user is
  the author and the issue was created at or after the cutoff, or the issue has a
  comment of the user dated at or after the cutoff.
\<close>

definition issue_qualifies :: "string \<Rightarrow> datetime \<Rightarrow> issue_node \<Rightarrow> bool" where
  "issue_qualifies username since issue \<longleftrightarrow>
     (in_author issue = Some username \<and> in_createdAt issue \<ge> since)
     \<or> (\<exists>comment \<in> set (in_comments issue).
           c_author comment = Some username \<and> c_createdAt comment \<ge> since)"


text \<open>Commits of the examples: two probes that both return the commit \<^verbatim>\<open>abc123\<close>.\<close>

definition commit_abc :: commit_node where
  "commit_abc = \<lparr>oid = ''abc123'', message = ''Fix parser'',
     committedDate = (2024, 2, 1, 10, 0, 0), commit_url = ''https://example.org/c/abc123'',
     commit_additions = 10, commit_deletions = 2, commit_changedFiles = 1,
     parents_totalCount = 1\<rparr>"

definition commit_def :: commit_node where
  "commit_def = \<lparr>oid = ''def456'', message = ''Add tests'',
     committedDate = (2024, 2, 2, 10, 0, 0), commit_url = ''https://example.org/c/def456'',
     commit_additions = 30, commit_deletions = 0, commit_changedFiles = 2,
     parents_totalCount = 1\<rparr>"

definition commit_abc_again :: commit_node where
  "commit_abc_again = commit_abc\<lparr>message := ''Fix parser (second probe)''\<rparr>"

section \<open>Inputs of the examples\<close>

text \<open>
  The target user is \<^verbatim>\<open>alice\<close>, the cutoff is 2024-01-01T00:00:00Z. An answer of the
  API with status 200 and no \<^verbatim>\<open>errors\<close> key, and an answer with status 500.
\<close>

definition since_2024 :: datetime where
  "since_2024 = (2024, 1, 1, 0, 0, 0)"

definition ok_response :: "'d \<Rightarrow> 'd response" where
  "ok_response d = \<lparr>status_code = 200, body_text = [], result_errors = None, result_data = d\<rparr>"

definition failed_response :: "'d \<Rightarrow> 'd response" where
  "failed_response d =
     \<lparr>status_code = 500, body_text = ''Internal Server Error'', result_errors = None,
      result_data = d\<rparr>"

definition last_page :: "'n list \<Rightarrow> 'n page" where
  "last_page ns = \<lparr>nodes = ns, endCursor = None, hasNextPage = False\<rparr>"

definition repo_example :: repository_info where
  "repo_example = \<lparr>nameWithOwner = ''acme/tool'', repo_name = ''tool'', description = None,
     repo_url = ''https://example.org/acme/tool'', isPrivate = False, isArchived = False\<rparr>"

text \<open>
  Reviews: a pull request of \<^verbatim>\<open>bob\<close> with a review by the user dated 2024-02-01 (the
  API reports 45 review comments and returns the first one), and a pull request of
  \<^verbatim>\<open>carol\<close> with a review by the user dated 2023-06-01.
\<close>

definition review_feb :: review_node where
  "review_feb = \<lparr>rv_state = ''APPROVED'', rv_body = ''Looks good'',
     rv_createdAt = (2024, 2, 1, 0, 0, 0), rv_url = ''https://example.org/pr/11#r1'',
     rv_comments_totalCount = 45,
     rv_comments_nodes = [\<lparr>rc_body = ''nit'', rc_path = ''a.py'', rc_position = Some 3,
       rc_createdAt = (2024, 2, 1, 0, 0, 0)\<rparr>]\<rparr>"

definition review_2023 :: review_node where
  "review_2023 = \<lparr>rv_state = ''COMMENTED'', rv_body = ''Old remark'',
     rv_createdAt = (2023, 6, 1, 0, 0, 0), rv_url = ''https://example.org/pr/12#r1'',
     rv_comments_totalCount = 0, rv_comments_nodes = []\<rparr>"

definition bob_reviewed_pr :: reviewed_pr_node where
  "bob_reviewed_pr = \<lparr>rpr_number = 11, rpr_title = ''Add cache'',
     rpr_url = ''https://example.org/pr/11'', rpr_createdAt = (2024, 1, 20, 0, 0, 0),
     rpr_author = Some ''bob'', rpr_reviews = [review_feb]\<rparr>"

definition carol_reviewed_pr :: reviewed_pr_node where
  "carol_reviewed_pr = \<lparr>rpr_number = 12, rpr_title = ''Old change'',
     rpr_url = ''https://example.org/pr/12'', rpr_createdAt = (2023, 5, 20, 0, 0, 0),
     rpr_author = Some ''carol'', rpr_reviews = [review_2023]\<rparr>"

definition review_remote :: "reviewed_pr_node remote" where
  "review_remote = [\<lambda>cursor. ok_response (last_page [bob_reviewed_pr, carol_reviewed_pr])]"

text \<open>
  Comments: a pull request of the user, created in the window, with a comment of
  \<^verbatim>\<open>carol\<close> and a comment of a deleted account; and a pull request of \<^verbatim>\<open>bob\<close> from 2023
  with a comment of the user.
\<close>

definition carol_comment :: comment_node where
  "carol_comment = \<lparr>c_author = Some ''carol'', c_body = ''Nice'',
     c_createdAt = (2024, 2, 10, 12, 0, 0), c_url = ''https://example.org/pr/21#c1''\<rparr>"

definition ghost_comment :: comment_node where
  "ghost_comment = \<lparr>c_author = None, c_body = ''+1'',
     c_createdAt = (2024, 2, 12, 12, 0, 0), c_url = ''https://example.org/pr/21#c2''\<rparr>"

definition alice_comment :: comment_node where
  "alice_comment = \<lparr>c_author = Some ''alice'', c_body = ''I can help'',
     c_createdAt = (2024, 2, 11, 12, 0, 0), c_url = ''https://example.org/x#c3''\<rparr>"

definition alice_pr :: pull_request_node where
  "alice_pr = \<lparr>pr_number = 21, pr_title = ''New parser'', pr_url = ''https://example.org/pr/21'',
     pr_createdAt = (2024, 2, 9, 0, 0, 0), pr_author = Some ''alice'',
     pr_comments_totalCount = 2, pr_comments = [carol_comment, ghost_comment]\<rparr>"

definition bob_pr :: pull_request_node where
  "bob_pr = \<lparr>pr_number = 22, pr_title = ''Refactor'', pr_url = ''https://example.org/pr/22'',
     pr_createdAt = (2023, 11, 1, 0, 0, 0), pr_author = Some ''bob'',
     pr_comments_totalCount = 1, pr_comments = [alice_comment]\<rparr>"

definition pr_remote :: "pull_request_node remote" where
  "pr_remote = [\<lambda>cursor. ok_response (last_page [alice_pr, bob_pr])]"

text \<open>
  Issues: an issue of the user from 2024-03-01 without comments, and an issue of
  \<^verbatim>\<open>bob\<close> from 2023-06-01 with a comment of the user dated 2024-02-11.
\<close>

definition alice_issue :: issue_node where
  "alice_issue = \<lparr>in_number = 31, in_title = ''Crash on start'',
     in_url = ''https://example.org/i/31'', in_createdAt = (2024, 3, 1, 0, 0, 0),
     in_author = Some ''alice'', in_comments_totalCount = 0, in_comments = []\<rparr>"

definition old_issue :: issue_node where
  "old_issue = \<lparr>in_number = 32, in_title = ''Slow build'',
     in_url = ''https://example.org/i/32'', in_createdAt = (2023, 6, 1, 0, 0, 0),
     in_author = Some ''bob'', in_comments_totalCount = 1, in_comments = [alice_comment]\<rparr>"

definition issue_remote :: "issue_node remote" where
  "issue_remote = [\<lambda>cursor. ok_response (last_page [alice_issue, old_issue])]"


text \<open>
  Authored pull requests, newest first: a first page with a pull request of the user
  and one of \<^verbatim>\<open>bob\<close>, both from 2024; a second page with a pull request from 2023;
  both pages report a next page. A third answer follows.
\<close>

definition new_apr :: authored_pr_node where
  "new_apr = \<lparr>apr_title = ''New parser'', apr_body = [], apr_url = ''https://example.org/pr/21'',
     apr_createdAt = (2024, 2, 9, 0, 0, 0), apr_closedAt = None, apr_mergedAt = None,
     apr_state = ''OPEN'', apr_number = 21, apr_author = Some ''alice'',
     apr_additions = 120, apr_deletions = 4, apr_changedFiles = 3\<rparr>"

definition other_apr :: authored_pr_node where
  "other_apr = new_apr\<lparr>apr_title := ''Add cache'', apr_number := 11,
     apr_createdAt := (2024, 1, 20, 0, 0, 0), apr_author := Some ''bob''\<rparr>"

definition old_apr :: authored_pr_node where
  "old_apr = new_apr\<lparr>apr_title := ''Old change'', apr_number := 5,
     apr_createdAt := (2023, 12, 1, 0, 0, 0), apr_state := ''MERGED''\<rparr>"

definition first_apr_page :: "authored_pr_node page" where
  "first_apr_page = \<lparr>nodes = [new_apr, other_apr], endCursor = Some ''c1'', hasNextPage = True\<rparr>"

definition second_apr_page :: "authored_pr_node page" where
  "second_apr_page = \<lparr>nodes = [old_apr], endCursor = Some ''c2'', hasNextPage = True\<rparr>"

definition third_apr_post :: "cursor \<Rightarrow> authored_pr_node page response" where
  "third_apr_post = (\<lambda>cursor. ok_response (last_page []))"

definition apr_remote :: "authored_pr_node remote" where
  "apr_remote =
     [\<lambda>cursor. ok_response first_apr_page, \<lambda>cursor. ok_response second_apr_page, third_apr_post]"

text \<open>
  Commit history: the probe of the noreply address returns two commits and the probe
  of the bare user name returns the first again. In the second remote the first
  probe fails with status 500 and the second returns one commit.
\<close>

definition commit_remote_ok :: commit_remote where
  "commit_remote_ok =
     [\<lambda>variables. ok_response (Some (Some (last_page [commit_abc, commit_def]))),
      \<lambda>variables. ok_response (Some (Some (last_page [commit_abc_again])))]"

definition commit_remote_failing :: commit_remote where
  "commit_remote_failing =
     [\<lambda>variables. failed_response None,
      \<lambda>variables. ok_response (Some (Some (last_page [commit_abc])))]"

definition repo_post_ok :: "string \<times> string \<Rightarrow> repository_info option response" where
  "repo_post_ok = (\<lambda>variables. ok_response (Some repo_example))"





section \<open>Deduplication of commits\<close>








section \<open>The four full scans read the pages of \<open>fetch_all_pages\<close>\<close>

lemmas example_defs = since_2024_def ok_response_def failed_response_def last_page_def
  repo_example_def review_feb_def review_2023_def bob_reviewed_pr_def carol_reviewed_pr_def
  review_remote_def carol_comment_def ghost_comment_def alice_comment_def alice_pr_def
  bob_pr_def pr_remote_def alice_issue_def old_issue_def issue_remote_def
  commit_abc_def commit_def_def commit_abc_again_def new_apr_def other_apr_def old_apr_def
  first_apr_page_def second_apr_page_def third_apr_post_def apr_remote_def
  commit_remote_ok_def commit_remote_failing_def repo_post_ok_def

lemma bucket_of_pages_Nil: "bucket_of_pages rule [] = []"
  by (simp add: bucket_of_pages_def)

lemma bucket_of_pages_Cons:
  "bucket_of_pages rule (p # pages) = concat (map rule (nodes p)) @ bucket_of_pages rule pages"
  by (simp add: bucket_of_pages_def)

lemma in_bucket_of_pages:
  "entry \<in> set (bucket_of_pages rule pages) \<longleftrightarrow>
     (\<exists>node \<in> set (concat (map nodes pages)). entry \<in> set (rule node))"
  by (auto simp: bucket_of_pages_def)

lemma pr_reviews_loop_pages:
  "pr_reviews_loop remote username since cursor acc =
     (case fetch_all_pages remote cursor of
        None \<Rightarrow> None
      | Some (Inl e, rest) \<Rightarrow> Some (Inl e, rest)
      | Some (Inr pages, rest) \<Rightarrow>
          Some (Inr (acc @ bucket_of_pages (reviews_of_pr username since) pages), rest))"
proof (induction remote arbitrary: cursor acc)
  case Nil
  show ?case by simp
next
  case (Cons post remote)
  show ?case
    by (simp add: Cons.IH bucket_of_pages_Cons bucket_of_pages_Nil Let_def
        split: sum.splits option.splits prod.splits)
qed

lemma get_user_pr_reviews_pages:
  "fetch_all_pages remote None = Some (Inr pages, rest) \<Longrightarrow>
   get_user_pr_reviews remote username since =
     Some (Inr (bucket_of_pages (reviews_of_pr username since) pages), rest)"
  by (simp add: get_user_pr_reviews_def pr_reviews_loop_pages)


lemma commented_prs_loop_pages:
  "commented_prs_loop remote username since cursor acc =
     (case fetch_all_pages remote cursor of
        None \<Rightarrow> None
      | Some (Inl e, rest) \<Rightarrow> Some (Inl e, rest)
      | Some (Inr pages, rest) \<Rightarrow>
          Some (Inr (acc @ bucket_of_pages (commented_pr_of username since) pages), rest))"
proof (induction remote arbitrary: cursor acc)
  case Nil
  show ?case by simp
next
  case (Cons post remote)
  show ?case
    by (simp add: Cons.IH bucket_of_pages_Cons bucket_of_pages_Nil Let_def
        split: sum.splits option.splits prod.splits)
qed

lemma get_prs_with_user_comments_pages:
  "fetch_all_pages remote None = Some (Inr pages, rest) \<Longrightarrow>
   get_prs_with_user_comments remote username since =
     Some (Inr (bucket_of_pages (commented_pr_of username since) pages), rest)"
  by (simp add: get_prs_with_user_comments_def commented_prs_loop_pages)

lemma get_prs_with_user_comments_InrD:
  "get_prs_with_user_comments remote username since = Some (Inr bucket, rest) \<Longrightarrow>
   \<exists>pages. fetch_all_pages remote None = Some (Inr pages, rest) \<and>
     bucket = bucket_of_pages (commented_pr_of username since) pages"
  by (auto simp: get_prs_with_user_comments_def commented_prs_loop_pages
      split: option.splits sum.splits prod.splits)

lemma pr_threads_loop_pages:
  "pr_threads_loop remote username since cursor acc =
     (case fetch_all_pages remote cursor of
        None \<Rightarrow> None
      | Some (Inl e, rest) \<Rightarrow> Some (Inl e, rest)
      | Some (Inr pages, rest) \<Rightarrow>
          Some (Inr (acc @ bucket_of_pages (pr_thread_of username since) pages), rest))"
proof (induction remote arbitrary: cursor acc)
  case Nil
  show ?case by simp
next
  case (Cons post remote)
  show ?case
    by (simp add: Cons.IH bucket_of_pages_Cons bucket_of_pages_Nil Let_def
        split: sum.splits option.splits prod.splits)
qed

lemma get_user_pr_comment_threads_pages:
  "fetch_all_pages remote None = Some (Inr pages, rest) \<Longrightarrow>
   get_user_pr_comment_threads remote username since =
     Some (Inr (bucket_of_pages (pr_thread_of username since) pages), rest)"
  by (simp add: get_user_pr_comment_threads_def pr_threads_loop_pages)


lemma issue_discussions_loop_pages:
  "issue_discussions_loop remote username since cursor acc =
     (case fetch_all_pages remote cursor of
        None \<Rightarrow> None
      | Some (Inl e, rest) \<Rightarrow> Some (Inl e, rest)
      | Some (Inr pages, rest) \<Rightarrow>
          Some (Inr (acc @ bucket_of_pages (discussed_issue_of username since) pages), rest))"
proof (induction remote arbitrary: cursor acc)
  case Nil
  show ?case by simp
next
  case (Cons post remote)
  show ?case
    by (simp add: Cons.IH bucket_of_pages_Cons bucket_of_pages_Nil Let_def
        split: sum.splits option.splits prod.splits)
qed

lemma get_issue_discussions_pages:
  "fetch_all_pages remote None = Some (Inr pages, rest) \<Longrightarrow>
   get_issue_discussions remote username since =
     Some (Inr (bucket_of_pages (discussed_issue_of username since) pages), rest)"
  by (simp add: get_issue_discussions_def issue_discussions_loop_pages)


section \<open>Reviews given\<close>

lemma in_reviews_of_pr:
  "entry \<in> set (reviews_of_pr username since pr) \<longleftrightarrow>
     (\<exists>review \<in> set (rpr_reviews pr). rpr_author pr \<noteq> Some username \<and>
        rv_createdAt review \<ge> since \<and> entry = pr_with_review_of pr review)"
  by (auto simp: reviews_of_pr_def Let_def)

text \<open>
  C7. When the scan of the review query reads the pages \<open>pages\<close>, the reviews-given
  bucket holds exactly the entries made from a review, among those the API returned
  for the user, whose pull request is not authored by the user (an absent author is
  not the user) and whose own timestamp is at or after the cutoff.
\<close>

theorem reviews_given_iff:
  assumes "fetch_all_pages remote None = Some (Inr pages, rest)"
  shows "\<exists>bucket. get_user_pr_reviews remote username since = Some (Inr bucket, rest) \<and>
    (\<forall>entry. entry \<in> set bucket \<longleftrightarrow>
       (\<exists>pr \<in> set (concat (map nodes pages)). \<exists>review \<in> set (rpr_reviews pr).
          rpr_author pr \<noteq> Some username \<and> rv_createdAt review \<ge> since \<and>
          entry = pr_with_review_of pr review))"
  using get_user_pr_reviews_pages[OF assms, of username since]
  by (simp add: in_bucket_of_pages in_reviews_of_pr)

text \<open>
  The scenario of C7: for \<^verbatim>\<open>alice\<close> and the cutoff 2024-01-01, the review dated
  2024-02-01 on the pull request of \<^verbatim>\<open>bob\<close> is the only entry; the review dated
  2023-06-01 is not in the bucket.
\<close>

theorem reviews_given_iff_witness:
  "fetch_all_pages review_remote None
     = Some (Inr [last_page [bob_reviewed_pr, carol_reviewed_pr]], []) \<and>
   get_user_pr_reviews review_remote ''alice'' since_2024
     = Some (Inr [pr_with_review_of bob_reviewed_pr review_feb], []) \<and>
   pr_with_review_of carol_reviewed_pr review_2023
     \<notin> set [pr_with_review_of bob_reviewed_pr review_feb]"
  using reviews_given_iff[of review_remote "[last_page [bob_reviewed_pr, carol_reviewed_pr]]" "[]"
      "''alice''" since_2024]
  by (simp add: example_defs make_graphql_request_def get_user_pr_reviews_def reviews_of_pr_def
      pr_with_review_of_def login_or_unknown_def)

section \<open>Issue participation\<close>

lemma user_comments_of_nonempty:
  "user_comments_of username since comments \<noteq> [] \<longleftrightarrow>
     (\<exists>comment \<in> set comments. c_author comment = Some username \<and> c_createdAt comment \<ge> since)"
  by (auto simp: user_comments_of_def filter_empty_conv)

lemma truthy_author_is: "truthy (author_is author username) \<longleftrightarrow> author = Some username"
  by (cases author) (auto simp: truthy_def author_is_def)

lemma discussed_issue_of_qualifies:
  "discussed_issue_of username since issue =
     (if issue_qualifies username since issue
      then [\<lparr>issue_number = in_number issue,
             issue_title = in_title issue,
             issue_url = in_url issue,
             issue_author = login_or_unknown (in_author issue),
             is_authored_by_user = author_is (in_author issue) username,
             iss_comments = user_comments_of username since (in_comments issue),
             iss_comment_count =
               int (length (user_comments_of username since (in_comments issue)))\<rparr>]
      else [])"
  by (simp add: discussed_issue_of_def Let_def issue_qualifies_def user_comments_of_nonempty
      truthy_author_is)

text \<open>
  C9. When the scan of the issue query reads the pages \<open>pages\<close>, the bucket is built
  issue by issue, an issue gives an entry if and only if the user is its author and
  it was created at or after the cutoff, or it has a comment of the user dated at or
  after the cutoff; the entries are those of the qualifying issues, in order. An issue
  created before the cutoff is therefore included when the user has such a comment on it.
\<close>

theorem issue_participation_iff:
  assumes "fetch_all_pages remote None = Some (Inr pages, rest)"
  shows "\<exists>bucket. get_issue_discussions remote username since = Some (Inr bucket, rest) \<and>
    bucket = concat (map (discussed_issue_of username since) (concat (map nodes pages))) \<and>
    map issue_number bucket
      = map in_number (filter (issue_qualifies username since) (concat (map nodes pages))) \<and>
    (\<forall>issue. (discussed_issue_of username since issue \<noteq> []) = issue_qualifies username since issue)"
proof -
  have "map issue_number (concat (map (discussed_issue_of username since) xs))
      = map in_number (filter (issue_qualifies username since) xs)" for xs
    by (induction xs) (simp_all add: discussed_issue_of_qualifies)
  then show ?thesis
    using get_issue_discussions_pages[OF assms, of username since]
    by (simp add: bucket_of_pages_def discussed_issue_of_qualifies)
qed

text \<open>
  The issue of \<^verbatim>\<open>bob\<close> from 2023-06-01 is older than the cutoff and is in the bucket,
  for the comment of the user from 2024-02-11.
\<close>

theorem issue_participation_iff_witness:
  "fetch_all_pages issue_remote None = Some (Inr [last_page [alice_issue, old_issue]], []) \<and>
   issue_qualifies ''alice'' since_2024 old_issue \<and>
   in_createdAt old_issue < since_2024 \<and>
   discussed_issue_of ''alice'' since_2024 old_issue \<noteq> [] \<and>
   (\<exists>bucket. get_issue_discussions issue_remote ''alice'' since_2024 = Some (Inr bucket, []) \<and>
      map issue_number bucket = [31, 32])"
  using issue_participation_iff[of issue_remote "[last_page [alice_issue, old_issue]]" "[]"
      "''alice''" since_2024]
  by (simp add: example_defs make_graphql_request_def issue_qualifies_def)

section \<open>Counts of review comments\<close>

text \<open>
  C10. Every entry of the reviews-given bucket is made from a review the scan read;
  its \<open>review_comments_count\<close> is the \<^verbatim>\<open>totalCount\<close> the API reported for the comments
  of that review and its \<open>review_comments\<close> are the comment nodes the API returned,
  and \<open>total_review_comments\<close> of the statistics is the sum of these counts.
\<close>

theorem review_comments_count_is_totalCount:
  assumes "fetch_all_pages remote None = Some (Inr pages, rest)"
  shows "\<exists>bucket. get_user_pr_reviews remote username since = Some (Inr bucket, rest) \<and>
    (\<forall>entry \<in> set bucket.
       \<exists>pr \<in> set (concat (map nodes pages)). \<exists>review \<in> set (rpr_reviews pr).
         entry = pr_with_review_of pr review \<and>
         review_comments_count entry = rv_comments_totalCount review \<and>
         review_comments entry = rv_comments_nodes review) \<and>
    total_review_comments (get_collaboration_stats bucket commented_prs pr_threads issue_discussions)
      = sum_list (map review_comments_count bucket)"
proof -
  let ?bucket = "bucket_of_pages (reviews_of_pr username since) pages"
  have run: "get_user_pr_reviews remote username since = Some (Inr ?bucket, rest)"
    by (rule get_user_pr_reviews_pages[OF assms])
  have entries: "\<forall>entry \<in> set ?bucket.
       \<exists>pr \<in> set (concat (map nodes pages)). \<exists>review \<in> set (rpr_reviews pr).
         entry = pr_with_review_of pr review \<and>
         review_comments_count entry = rv_comments_totalCount review \<and>
         review_comments entry = rv_comments_nodes review"
  proof
    fix entry assume "entry \<in> set ?bucket"
    then obtain pr review where "pr \<in> set (concat (map nodes pages))"
      "review \<in> set (rpr_reviews pr)" "entry = pr_with_review_of pr review"
      unfolding in_bucket_of_pages in_reviews_of_pr by blast
    moreover have "review_comments_count (pr_with_review_of pr review) = rv_comments_totalCount review"
      "review_comments (pr_with_review_of pr review) = rv_comments_nodes review"
      by (simp_all add: pr_with_review_of_def)
    ultimately show "\<exists>pr \<in> set (concat (map nodes pages)). \<exists>review \<in> set (rpr_reviews pr).
         entry = pr_with_review_of pr review \<and>
         review_comments_count entry = rv_comments_totalCount review \<and>
         review_comments entry = rv_comments_nodes review" by blast
  qed
  have total: "total_review_comments (get_collaboration_stats ?bucket commented_prs pr_threads issue_discussions)
      = sum_list (map review_comments_count ?bucket)"
    by (simp add: get_collaboration_stats_def Let_def)
  from run entries total show ?thesis by blast
qed

text \<open>
  In the example the API reports 45 comments and returns one: the count of the entry
  and the total are 45, the embedded list has length 1.
\<close>

theorem review_comments_count_is_totalCount_witness:
  "fetch_all_pages review_remote None
     = Some (Inr [last_page [bob_reviewed_pr, carol_reviewed_pr]], []) \<and>
   (\<exists>entry. get_user_pr_reviews review_remote ''alice'' since_2024 = Some (Inr [entry], []) \<and>
      review_comments_count entry = 45 \<and> length (review_comments entry) = 1 \<and>
      total_review_comments (get_collaboration_stats [entry] [] [] []) = 45)"
  using review_comments_count_is_totalCount[of review_remote
      "[last_page [bob_reviewed_pr, carol_reviewed_pr]]" "[]" "''alice''" since_2024 "[]" "[]" "[]"]
  by (simp add: example_defs make_graphql_request_def get_user_pr_reviews_def reviews_of_pr_def
      pr_with_review_of_def login_or_unknown_def get_collaboration_stats_def Let_def)

section \<open>Comments given and discussion on own work\<close>

lemma in_thread_of_comment:
  "t \<in> set (thread_of_comment username since comment) \<longleftrightarrow>
     (\<exists>login. c_author comment = Some login \<and> login \<noteq> username \<and> c_createdAt comment \<ge> since \<and>
        t = \<lparr>thread_comment = comment, comment_author = login\<rparr>)"
  by (auto simp: thread_of_comment_def split: option.splits)

lemma in_pr_thread_of:
  "entry \<in> set (pr_thread_of username since pr) \<Longrightarrow>
     pr_author pr = Some username \<and> pr_createdAt pr \<ge> since \<and>
     thr_pr_number entry = pr_number pr \<and> thr_created_at entry = pr_createdAt pr \<and>
     discussion_threads entry = concat (map (thread_of_comment username since) (pr_comments pr))"
  by (auto simp: pr_thread_of_def Let_def split: if_splits)

lemma in_commented_pr_of:
  "entry \<in> set (commented_pr_of username since pr) \<Longrightarrow>
     pr_author pr \<noteq> Some username \<and>
     cpr_pr_author entry = login_or_unknown (pr_author pr) \<and>
     cpr_comments entry = user_comments_of username since (pr_comments pr)"
  by (auto simp: commented_pr_of_def Let_def split: if_splits)

lemma in_user_comments_of:
  "comment \<in> set (user_comments_of username since comments) \<longleftrightarrow>
     comment \<in> set comments \<and> c_author comment = Some username \<and> c_createdAt comment \<ge> since"
  by (auto simp: user_comments_of_def)

lemma commented_prs_only_user_comments:
  assumes "get_prs_with_user_comments remote username since = Some (Inr commented, rest)"
    and "entry \<in> set commented" and "comment \<in> set (cpr_comments entry)"
  shows "c_author comment = Some username \<and> c_createdAt comment \<ge> since"
proof -
  from get_prs_with_user_comments_InrD[OF assms(1)] obtain pages where
    "commented = bucket_of_pages (commented_pr_of username since) pages" by blast
  with assms(2) obtain pr where "entry \<in> set (commented_pr_of username since pr)"
    by (auto simp: in_bucket_of_pages)
  from in_commented_pr_of[OF this] assms(3) show ?thesis
    by (simp add: in_user_comments_of)
qed

lemma pr_thread_of_hit:
  assumes "pr_author pr = Some username" "pr_createdAt pr \<ge> since"
    "comment \<in> set (pr_comments pr)" "c_author comment = Some login" "login \<noteq> username"
    "c_createdAt comment \<ge> since"
  shows "\<exists>entry \<in> set (pr_thread_of username since pr). thr_pr_number entry = pr_number pr \<and>
     \<lparr>thread_comment = comment, comment_author = login\<rparr> \<in> set (discussion_threads entry)"
proof -
  let ?threads = "concat (map (thread_of_comment username since) (pr_comments pr))"
  have "\<lparr>thread_comment = comment, comment_author = login\<rparr> \<in> set ?threads"
    using assms(3-6) by (auto simp: in_thread_of_comment)
  moreover from this have "?threads \<noteq> []" by (metis empty_iff list.set(1))
  ultimately show ?thesis using assms(1,2)
    by (simp add: pr_thread_of_def Let_def)
qed

text \<open>
  C8, as amended. A comment whose author is present, with a login other than the
  user's, on a pull request that the user authored and that the thread scan read,
  with both timestamps at or after the cutoff, is in the discussion-on-own-work
  bucket, in the entry of that pull request. Whatever the comments-given scan reads,
  that comment is in none of its entries, and no comment of the discussion bucket is
  in the comments-given bucket.
\<close>

theorem discussion_on_own_work_exclusive:
  assumes "fetch_all_pages thread_remote None = Some (Inr pages, rest)"
    and "pr \<in> set (concat (map nodes pages))"
    and "pr_author pr = Some username" and "pr_createdAt pr \<ge> since"
    and "comment \<in> set (pr_comments pr)"
    and "c_author comment = Some login" and "login \<noteq> username"
    and "c_createdAt comment \<ge> since"
  shows "\<exists>threads. get_user_pr_comment_threads thread_remote username since = Some (Inr threads, rest) \<and>
      (\<exists>entry \<in> set threads. thr_pr_number entry = pr_number pr \<and>
         \<lparr>thread_comment = comment, comment_author = login\<rparr> \<in> set (discussion_threads entry)) \<and>
      (\<forall>comment_remote commented rest'.
         get_prs_with_user_comments comment_remote username since = Some (Inr commented, rest')
         \<longrightarrow> (\<forall>given \<in> set commented. comment \<notin> set (cpr_comments given) \<and>
               (\<forall>entry \<in> set threads. \<forall>t \<in> set (discussion_threads entry).
                  thread_comment t \<notin> set (cpr_comments given))))"
proof -
  let ?threads = "bucket_of_pages (pr_thread_of username since) pages"
  have run: "get_user_pr_comment_threads thread_remote username since = Some (Inr ?threads, rest)"
    by (rule get_user_pr_comment_threads_pages[OF assms(1)])
  have hit: "\<exists>entry \<in> set ?threads. thr_pr_number entry = pr_number pr \<and>
         \<lparr>thread_comment = comment, comment_author = login\<rparr> \<in> set (discussion_threads entry)"
  proof -
    from pr_thread_of_hit[OF assms(3-8)] obtain entry where
      e: "entry \<in> set (pr_thread_of username since pr)" "thr_pr_number entry = pr_number pr"
        "\<lparr>thread_comment = comment, comment_author = login\<rparr> \<in> set (discussion_threads entry)"
      by blast
    from e(1) assms(2) have "entry \<in> set ?threads"
      unfolding in_bucket_of_pages by blast
    with e(2,3) show ?thesis by blast
  qed
  have others: "c_author (thread_comment t) \<noteq> Some username"
    if "entry \<in> set ?threads" "t \<in> set (discussion_threads entry)" for entry t
  proof -
    from that(1) obtain p where "entry \<in> set (pr_thread_of username since p)"
      by (auto simp: in_bucket_of_pages)
    from in_pr_thread_of[OF this] that(2) show ?thesis
      by (auto simp: in_thread_of_comment)
  qed
  have excl: "comment \<notin> set (cpr_comments given) \<and>
      (\<forall>entry \<in> set ?threads. \<forall>t \<in> set (discussion_threads entry).
          thread_comment t \<notin> set (cpr_comments given))"
    if "get_prs_with_user_comments comment_remote username since = Some (Inr commented, rest')"
      "given \<in> set commented" for comment_remote commented rest' given
    using commented_prs_only_user_comments[OF that] assms(6,7) others by auto
  from run hit excl show ?thesis by blast
qed

text \<open>
  The pull request of \<^verbatim>\<open>alice\<close> with the comment of \<^verbatim>\<open>carol\<close>: the comment is the
  only thread of the entry (the comment of the deleted account is dropped), and the
  comments-given bucket holds the comment of \<^verbatim>\<open>alice\<close> on the pull request of \<^verbatim>\<open>bob\<close> only.
\<close>

theorem discussion_on_own_work_exclusive_witness:
  "fetch_all_pages pr_remote None = Some (Inr [last_page [alice_pr, bob_pr]], []) \<and>
   alice_pr \<in> set (concat (map nodes [last_page [alice_pr, bob_pr]])) \<and>
   pr_author alice_pr = Some ''alice'' \<and> pr_createdAt alice_pr \<ge> since_2024 \<and>
   carol_comment \<in> set (pr_comments alice_pr) \<and> c_author carol_comment = Some ''carol'' \<and>
   ''carol'' \<noteq> ''alice'' \<and> c_createdAt carol_comment \<ge> since_2024 \<and>
   (\<exists>entry given.
      get_user_pr_comment_threads pr_remote ''alice'' since_2024 = Some (Inr [entry], []) \<and>
      discussion_threads entry = [\<lparr>thread_comment = carol_comment, comment_author = ''carol''\<rparr>] \<and>
      get_prs_with_user_comments pr_remote ''alice'' since_2024 = Some (Inr [given], []) \<and>
      cpr_comments given = [alice_comment] \<and> carol_comment \<notin> set (cpr_comments given))"
  using discussion_on_own_work_exclusive[of pr_remote "[last_page [alice_pr, bob_pr]]" "[]" alice_pr
      "''alice''" since_2024 carol_comment "''carol''"]
  by (simp add: example_defs make_graphql_request_def get_user_pr_comment_threads_def
      get_prs_with_user_comments_def pr_thread_of_def thread_of_comment_def commented_pr_of_def
      user_comments_of_def login_or_unknown_def Let_def)

text \<open>
  C8 as stated, for every comment by someone other than the user, fails for a comment
  whose author is absent (a deleted account): the guard
  \<^verbatim>\<open>comment['author'] and comment['author']['login'] != username\<close> drops it. The
  pull request of \<^verbatim>\<open>alice\<close> has such a comment in the window, and the entry holds the
  comment of \<^verbatim>\<open>carol\<close> only.
\<close>

theorem discussion_on_own_work_counterexample:
  "fetch_all_pages pr_remote None = Some (Inr [last_page [alice_pr, bob_pr]], []) \<and>
   pr_author alice_pr = Some ''alice'' \<and> pr_createdAt alice_pr \<ge> since_2024 \<and>
   pr_comments alice_pr = [carol_comment, ghost_comment] \<and>
   c_author ghost_comment = None \<and> c_author ghost_comment \<noteq> Some ''alice'' \<and>
   c_createdAt ghost_comment \<ge> since_2024 \<and>
   get_user_pr_comment_threads pr_remote ''alice'' since_2024
     = Some (Inr [\<lparr>thr_pr_number = 21, thr_pr_title = ''New parser'',
                    thr_pr_url = ''https://example.org/pr/21'',
                    thr_created_at = (2024, 2, 9, 0, 0, 0),
                    discussion_threads =
                      [\<lparr>thread_comment = carol_comment, comment_author = ''carol''\<rparr>],
                    thread_count = 1\<rparr>], []) \<and>
   ghost_comment \<noteq> carol_comment"
  by (simp add: example_defs make_graphql_request_def get_user_pr_comment_threads_def
      pr_thread_of_def thread_of_comment_def Let_def)

section \<open>The collaborator set\<close>













section \<open>The aggregator does not depend on the order of the entries\<close>





section \<open>Authored pull requests and commit probes\<close>

lemma filter_prs_keep:
  "apr_author pr = Some username \<Longrightarrow> apr_createdAt pr \<ge> since \<Longrightarrow>
   filter_prs username since (pr # prs) acc = filter_prs username since prs (acc @ [pr])"
  by simp

lemma filter_prs_stop:
  assumes "apr_createdAt pr < since"
  shows "filter_prs username since (pr # prs) acc = (acc, False)"
proof -
  from assms have "\<not> since \<le> apr_createdAt pr" by (simp only: not_le)
  with assms show ?thesis by simp
qed

lemma filter_prs_skip:
  assumes "\<not> (apr_author pr = Some username \<and> apr_createdAt pr \<ge> since)"
    and "\<not> apr_createdAt pr < since"
  shows "filter_prs username since (pr # prs) acc = filter_prs username since prs acc"
  using assms by (cases "apr_author pr = Some username") simp_all


lemma pull_requests_loop_step:
  "make_graphql_request post cursor = Inr page \<Longrightarrow>
   filter_prs username since (nodes page) acc = (acc', continue_fetching) \<Longrightarrow>
   pull_requests_loop (post # remote) username since cursor acc =
     (if continue_fetching \<and> hasNextPage page
      then pull_requests_loop remote username since (endCursor page) acc'
      else Some (Inr acc', remote))"
  by simp











section \<open>Early stop\<close>

lemma filter_prs_old:
  "\<exists>pr \<in> set prs. apr_createdAt pr < since \<Longrightarrow>
   \<exists>acc'. filter_prs username since prs acc = (acc', False)"
proof (induction prs arbitrary: acc)
  case Nil
  then show ?case by simp
next
  case (Cons pr prs)
  show ?case
  proof (cases "apr_createdAt pr < since")
    case True
    then show ?thesis by (simp only: filter_prs_stop) simp
  next
    case notold: False
    with Cons.prems have rest: "\<exists>pr \<in> set prs. apr_createdAt pr < since" by auto
    show ?thesis
    proof (cases "apr_author pr = Some username \<and> apr_createdAt pr \<ge> since")
      case True
      then have "filter_prs username since (pr # prs) acc
          = filter_prs username since prs (acc @ [pr])"
        by (simp only: filter_prs_keep)
      with Cons.IH[OF rest, of "acc @ [pr]"] show ?thesis by simp
    next
      case False
      from filter_prs_skip[OF False notold] Cons.IH[OF rest, of acc] show ?thesis by simp
    qed
  qed
qed

text \<open>
  C3. \<open>pull_requests_loop\<close> is the \<^verbatim>\<open>while\<close> loop of \<^verbatim>\<open>get_user_pull_requests\<close> at
  any of its turns: the answers still to come, the cursor and the list gathered so
  far. When the page that a turn fetches holds a record created before the cutoff,
  the loop returns after this page and reads none of the later answers, whether or
  not the page reports a next page.
\<close>

theorem early_stop_after_old_record:
  assumes "make_graphql_request post cursor = Inr page"
    and "\<exists>pr \<in> set (nodes page). apr_createdAt pr < since"
  shows "\<exists>prs. pull_requests_loop (post # remote) username since cursor acc
      = Some (Inr prs, remote)"
proof -
  from filter_prs_old[OF assms(2)] obtain acc' where
    "filter_prs username since (nodes page) acc = (acc', False)" by blast
  from pull_requests_loop_step[OF assms(1) this] show ?thesis by simp
qed

text \<open>
  The second page of the example holds a pull request from 2023 and reports a next
  page; the run returns after it and the third answer stays unread.
\<close>

theorem early_stop_after_old_record_witness:
  "make_graphql_request (\<lambda>cursor. ok_response second_apr_page) (Some ''c1'') = Inr second_apr_page \<and>
   old_apr \<in> set (nodes second_apr_page) \<and> apr_createdAt old_apr < since_2024 \<and>
   hasNextPage second_apr_page \<and>
   pull_requests_loop [\<lambda>cursor. ok_response second_apr_page, third_apr_post] ''alice'' since_2024
       (Some ''c1'') [new_apr]
     = Some (Inr [new_apr], [third_apr_post]) \<and>
   get_user_pull_requests apr_remote ''alice'' since_2024 = Some (Inr [new_apr], [third_apr_post])"
  using early_stop_after_old_record[of "\<lambda>cursor. ok_response second_apr_page" "Some ''c1''"
      second_apr_page since_2024 "[third_apr_post]" "''alice''" "[new_apr]"]
  by (simp add: example_defs make_graphql_request_def get_user_pull_requests_def)

section \<open>The cutoff in the buckets\<close>







section \<open>Failures of the query runner\<close>







end
